theory Spec2Isabelle
  imports Complex_Main "HOL-Library.Word"
begin

section \<open>The Stable Diffusion playground script (main.py)\<close>

text \<open>
  main.py is a Streamlit script. Streamlit executes the whole script once for every
  interaction of the user; one execution reads the current values of the input widgets,
  calls the external libraries and reads and writes the session state, which is the only
  data that survives from one execution to the next.

  The embedding describes one execution. Everything outside main.py is gathered in a
  record \<open>world\<close>: the values the Streamlit widgets return in this execution, the
  decoder behind \<open>Image.open\<close> and the imported function \<open>sd2.generate.generate\<close>.
  Every function of main.py becomes a function from the session state to
  \<^item> its result, or the exception that ended it,
  \<^item> the session state it leaves, and
  \<^item> the trace of the calls it made to the external libraries, in order.
  Calls that only lay out the page (\<open>st.set_page_config\<close>, \<open>st.columns\<close>) are not
  recorded. \<open>st.experimental_rerun\<close> ends the execution with an exception of its own;
  the execution Streamlit starts after it is another run, from the session left behind.
\<close>

subsection \<open>Images and the PIL operations the script uses\<close>

text \<open>
  A PIL image is known by its provenance: a raster that came from outside main.py (a
  decoded upload or a generated picture: width, height and an identifier of its
  content), the result of \<open>Image.resize\<close>, or the result of \<open>Image.fromarray\<close> on a
  two-dimensional boolean array (a list of rows). A PIL image defines neither
  \<open>__bool__\<close> nor \<open>__len__\<close>, so in a condition an optional image is true exactly when
  it is not \<open>None\<close>.
\<close>

datatype image =
    Raster int int nat
  | Resized image int int
  | Mask_image "bool list list"

fun image_width :: "image \<Rightarrow> int" where
  "image_width (Raster wd ht c) = wd"
| "image_width (Resized img wd ht) = wd"
| "image_width (Mask_image rows) = (case rows of [] \<Rightarrow> 0 | r # _ \<Rightarrow> int (length r))"

fun image_height :: "image \<Rightarrow> int" where
  "image_height (Raster wd ht c) = ht"
| "image_height (Resized img wd ht) = ht"
| "image_height (Mask_image rows) = int (length rows)"

text \<open>\<open>Image.resize\<close> rejects a size with a side below one (ValueError).\<close>

definition pil_resize :: "image \<Rightarrow> int \<times> int \<Rightarrow> image option" where
  "pil_resize img sz =
     (case sz of (wd, ht) \<Rightarrow> if wd < 1 \<or> ht < 1 then None else Some (Resized img wd ht))"

text \<open>\<open>Image.copy\<close> returns a new image with the same content: the same value.\<close>

definition pil_copy :: "image \<Rightarrow> image" where
  "pil_copy img = img"

definition pil_fromarray :: "bool list list \<Rightarrow> image" where
  "pil_fromarray rows = Mask_image rows"

type_synonym upload = "8 word list"

text \<open>
  The operations of PIL's Image interface that main.py or its specification name. The
  trace of an execution records each one main.py performs, with its arguments.
\<close>

datatype pil_op =
    Open upload
  | Resize image "int \<times> int"
  | Copy image
  | Fromarray "bool list list"
  | Crop image "int \<times> int \<times> int \<times> int"

subsection \<open>The call to generate\<close>

text \<open>
  \<open>generate(prompt, pipeline_name, negative_prompt=..., steps=..., guidance_scale=...,
  **kwargs)\<close>: the two positional arguments, the three keyword arguments that
  \<open>prompt_and_generate_button\<close> always passes, and the caller's keyword arguments in the
  order they were given. A keyword argument holds an integer, an image or \<open>None\<close>.
\<close>

datatype pyval = Py_none | Py_int int | Py_image image

record gen_call =
  prompt_arg :: string
  pipeline_name_arg :: string
  negative_prompt_arg :: string
  steps_arg :: int
  guidance_scale_arg :: real
  kwargs_arg :: "(string \<times> pyval) list"

fun py_image :: "image option \<Rightarrow> pyval" where
  "py_image None = Py_none"
| "py_image (Some img) = Py_image img"

subsection \<open>Traces, exceptions and session state\<close>

text \<open>
  \<open>Widget label key\<close> is an input widget placed on the page (for the drawable canvas,
  which has no label, the name of the component). \<open>Generate call result\<close> is a call of
  the external \<open>generate\<close> with what it returned (\<open>None\<close> when it raised).
  \<open>Print_size wd ht\<close> is the line printed by \<open>image_uploader\<close>.
\<close>

datatype event =
    Widget string "string option"
  | Title string
  | Header string
  | Markdown string
  | Spinner string
  | Tabs "string list"
  | Show_image image
  | Print_size int int
  | Generate gen_call "image option"
  | Pil pil_op

datatype exn = UnidentifiedImageError | ValueError | GenerateError | RerunException

datatype place = Page | In_tab string | Sidebar

text \<open>
  The session state is the dictionary of what main.py stores in it: main.py reads and
  writes it through \<open>get_image\<close> and \<open>set_image\<close> only, under the two keys
  \<open>output_img\<close> and \<open>loaded_image\<close>, neither of which is the key of a widget.
\<close>

type_synonym session = "string \<rightharpoonup> image"

type_synonym ('a, 'e) run = "(exn + 'a) \<times> session \<times> 'e list"

definition outcome :: "('a, 'e) run \<Rightarrow> exn + 'a" where
  "outcome m = fst m"

definition session_of :: "('a, 'e) run \<Rightarrow> session" where
  "session_of m = fst (snd m)"

definition trace :: "('a, 'e) run \<Rightarrow> 'e list" where
  "trace m = snd (snd m)"

text \<open>
  Statement after statement: an exception in the first part ends the run with the
  session and the trace reached so far.
\<close>

definition bind_run :: "('a, 'e) run \<Rightarrow> ('a \<Rightarrow> session \<Rightarrow> ('b, 'e) run) \<Rightarrow> ('b, 'e) run" where
  "bind_run m f =
     (case m of
        (Inl e, ss, es) \<Rightarrow> (Inl e, ss, es)
      | (Inr x, ss, es) \<Rightarrow> (case f x ss of (r, ss', es') \<Rightarrow> (r, ss', es @ es')))"

definition emit :: "'e list \<Rightarrow> session \<Rightarrow> (unit, 'e) run" where
  "emit es ss = (Inr (), ss, es)"

text \<open>A \<open>with\<close> block of a container: what runs inside is placed in that container.\<close>

definition inside :: "place \<Rightarrow> ('a, event) run \<Rightarrow> ('a, place \<times> event) run" where
  "inside p m = (case m of (r, ss, es) \<Rightarrow> (r, ss, map (Pair p) es))"

subsection \<open>The world outside main.py\<close>

type_synonym rgba = "8 word \<times> 8 word \<times> 8 word \<times> 8 word"

record canvas_args =
  fill_color :: string
  stroke_width :: int
  stroke_color :: string
  background_color :: string
  background_image :: image
  update_streamlit :: bool
  canvas_height :: int
  canvas_width :: int
  drawing_mode :: string
  canvas_key :: string

text \<open>
  The value \<open>st_canvas\<close> returns: \<open>image_data\<close> is an array of rows of RGBA pixels of
  unsigned bytes, or \<open>None\<close> before the component has sent a drawing.
\<close>

record canvas_result =
  image_data :: "rgba list list option"

text \<open>
  The arguments of the widget functions, in this order:
  \<^item> \<open>text_area label value key\<close>
  \<^item> \<open>slider label min_value max_value value step key\<close> (integer arguments;
    \<open>step\<close> is \<open>None\<close> when the call gives none), \<open>slider_float\<close> the same for
    floating-point arguments
  \<^item> \<open>button label key\<close> (\<open>key\<close> is \<open>None\<close> when the call gives none)
  \<^item> \<open>file_uploader label type key\<close>: the uploaded file, if there is one
  \<^item> \<open>number_input label value min_value max_value\<close>
  \<^item> \<open>st_canvas args\<close>
  \<^item> \<open>image_open file\<close>: \<open>Image.open\<close>, \<open>None\<close> when the file is no image PIL can read
  \<^item> \<open>generate call\<close>: \<open>sd2.generate.generate\<close>, \<open>None\<close> when it raises.
  The guidance scale takes the values 0.0, 0.5, ..., 20.0, which binary floating point
  represents exactly, so real numbers stand for the floats.
\<close>

record world =
  text_area :: "string \<Rightarrow> string \<Rightarrow> string \<Rightarrow> string"
  slider :: "string \<Rightarrow> int \<Rightarrow> int \<Rightarrow> int \<Rightarrow> int option \<Rightarrow> string \<Rightarrow> int"
  slider_float :: "string \<Rightarrow> real \<Rightarrow> real \<Rightarrow> real \<Rightarrow> real option \<Rightarrow> string \<Rightarrow> real"
  button :: "string \<Rightarrow> string option \<Rightarrow> bool"
  file_uploader :: "string \<Rightarrow> string list \<Rightarrow> string \<Rightarrow> upload option"
  number_input :: "string \<Rightarrow> int \<Rightarrow> int \<Rightarrow> int \<Rightarrow> int"
  st_canvas :: "canvas_args \<Rightarrow> canvas_result option"
  image_open :: "upload \<Rightarrow> image option"
  generate :: "gen_call \<Rightarrow> image option"

subsection \<open>main.py\<close>

definition DEFAULT_PROMPT :: string where
  "DEFAULT_PROMPT = ''border collie puppy''"

definition DEFAULT_WIDTH :: int where
  "DEFAULT_WIDTH = 512"

definition DEFAULT_HEIGHT :: int where
  "DEFAULT_HEIGHT = 512"

definition OUTPUT_IMAGE_KEY :: string where
  "OUTPUT_IMAGE_KEY = ''output_img''"

definition LOADED_IMAGE_KEY :: string where
  "LOADED_IMAGE_KEY = ''loaded_image''"

definition get_image :: "string \<Rightarrow> session \<Rightarrow> image option" where
  "get_image key ss = (if ss key \<noteq> None then ss key else None)"

definition set_image :: "string \<Rightarrow> image \<Rightarrow> session \<Rightarrow> session" where
  "set_image key img ss = ss(key \<mapsto> img)"

definition prompt_and_generate_button ::
  "world \<Rightarrow> string \<Rightarrow> string \<Rightarrow> (string \<times> pyval) list \<Rightarrow> session \<Rightarrow> (unit, event) run" where
  "prompt_and_generate_button w prefix pipeline_name kwargs ss =
     (let prompt = text_area w ''Prompt'' DEFAULT_PROMPT (prefix @ ''-prompt'');
          negative_prompt = text_area w ''Negative prompt'' [] (prefix @ ''-negative-prompt'');
          steps = slider w ''Number of inference steps'' 1 200 50 None (prefix @ ''-steps'');
          guidance_scale =
            slider_float w ''Guidance scale'' 0 20 7.5 (Some 0.5) (prefix @ ''-guidance'');
          widgets =
            [Widget ''Prompt'' (Some (prefix @ ''-prompt'')),
             Widget ''Negative prompt'' (Some (prefix @ ''-negative-prompt'')),
             Widget ''Number of inference steps'' (Some (prefix @ ''-steps'')),
             Widget ''Guidance scale'' (Some (prefix @ ''-guidance'')),
             Widget ''Generate image'' (Some (prefix @ ''-btn''))]
      in if button w ''Generate image'' (Some (prefix @ ''-btn'')) then
           (let call = \<lparr>prompt_arg = prompt, pipeline_name_arg = pipeline_name,
                        negative_prompt_arg = negative_prompt, steps_arg = steps,
                        guidance_scale_arg = guidance_scale, kwargs_arg = kwargs\<rparr>
            in case generate w call of
                 None \<Rightarrow>
                   (Inl GenerateError, ss,
                    widgets @ [Spinner ''Generating image...'', Generate call None])
               | Some img \<Rightarrow>
                   (Inr (), set_image OUTPUT_IMAGE_KEY (pil_copy img) ss,
                    widgets @ [Spinner ''Generating image...'', Generate call (Some img),
                               Pil (Copy img), Show_image img]))
         else (Inr (), ss, widgets))"

definition width_and_height_sliders :: "world \<Rightarrow> string \<Rightarrow> session \<Rightarrow> (int \<times> int, event) run" where
  "width_and_height_sliders w prefix ss =
     (let width = slider w ''Width'' 64 1024 512 (Some 64) (prefix @ ''-width'');
          height = slider w ''Height'' 64 1024 512 (Some 64) (prefix @ ''-height'')
      in (Inr (width, height), ss,
          [Widget ''Width'' (Some (prefix @ ''-width'')),
           Widget ''Height'' (Some (prefix @ ''-height''))]))"

definition image_uploader ::
  "world \<Rightarrow> string \<Rightarrow> int \<Rightarrow> int \<Rightarrow> session \<Rightarrow> (image option, event) run" where
  "image_uploader w prefix width height ss =
     (let widgets = [Widget ''Image'' (Some (prefix @ ''-uploader''))]
      in case file_uploader w ''Image'' [''jpg'', ''png''] (prefix @ ''-uploader'') of
           Some file \<Rightarrow>
             (case image_open w file of
                None \<Rightarrow> (Inl UnidentifiedImageError, ss, widgets @ [Pil (Open file)])
              | Some img \<Rightarrow>
                  (let opened = widgets @ [Pil (Open file),
                         Print_size (image_width img) (image_height img),
                         Pil (Resize img (width, height))]
                   in case pil_resize img (width, height) of
                        None \<Rightarrow> (Inl ValueError, ss, opened)
                      | Some resized \<Rightarrow> (Inr (Some resized), ss, opened)))
         | None \<Rightarrow> (Inr (get_image LOADED_IMAGE_KEY ss), ss, widgets))"

definition alpha :: "rgba \<Rightarrow> 8 word" where
  "alpha p = (case p of (r, g, b, a) \<Rightarrow> a)"

definition mask_sum :: "bool list list \<Rightarrow> nat" where
  "mask_sum arr = sum_list (map (\<lambda>row. length (filter (\<lambda>b. b) row)) arr)"

definition inpainting :: "world \<Rightarrow> session \<Rightarrow> (image option \<times> image option, event) run" where
  "inpainting w ss =
     bind_run (image_uploader w ''inpainting'' DEFAULT_WIDTH DEFAULT_HEIGHT ss) (\<lambda>uploaded ss1.
       case uploaded of
         None \<Rightarrow> (Inr (None, None), ss1, [])
       | Some img \<Rightarrow>
           (let brush_size = number_input w ''Brush Size'' 50 1 100;
                canvas_result = st_canvas w
                  \<lparr>fill_color = ''rgba(255, 255, 255, 0.0)'',
                   stroke_width = brush_size,
                   stroke_color = ''#FFFFFF'',
                   background_color = ''#000000'',
                   background_image = img,
                   update_streamlit = True,
                   canvas_height = image_height img,
                   canvas_width = image_width img,
                   drawing_mode = ''freedraw'',
                   canvas_key = ''inpainting''\<rparr>;
                widgets = [Widget ''Brush Size'' None, Widget ''st_canvas'' (Some ''inpainting'')]
            in case canvas_result of
                 None \<Rightarrow> (Inr (None, None), ss1, widgets)
               | Some cr \<Rightarrow>
                   (case image_data cr of
                      None \<Rightarrow> (Inr (None, None), ss1, widgets)
                    | Some data \<Rightarrow>
                        (let mask_arr = map (map (\<lambda>p. 0 < alpha p)) data
                         in if mask_sum mask_arr > 0 then
                              (Inr (Some img, Some (pil_fromarray mask_arr)), ss1,
                               widgets @ [Pil (Fromarray mask_arr),
                                          Show_image (pil_fromarray mask_arr)])
                            else (Inr (None, None), ss1, widgets)))))"

definition txt2img_tab :: "world \<Rightarrow> session \<Rightarrow> (unit, event) run" where
  "txt2img_tab w ss =
     (let prefix = ''txt2img''
      in bind_run (width_and_height_sliders w prefix ss) (\<lambda>dims ss1.
           case dims of (width, height) \<Rightarrow>
             prompt_and_generate_button w prefix ''txt2img''
               [(''width'', Py_int width), (''height'', Py_int height)] ss1))"

definition inpainting_tab :: "world \<Rightarrow> session \<Rightarrow> (unit, event) run" where
  "inpainting_tab w ss =
     bind_run (inpainting w ss) (\<lambda>res ss1.
       case res of
         (Some image_input, Some mask_input) \<Rightarrow>
           prompt_and_generate_button w ''inpaint'' ''inpaint''
             [(''image_input'', Py_image image_input), (''mask_input'', Py_image mask_input)] ss1
       | _ \<Rightarrow> emit [] ss1)"

definition img2img_tab :: "world \<Rightarrow> session \<Rightarrow> (unit, event) run" where
  "img2img_tab w ss =
     bind_run (image_uploader w ''img2img'' DEFAULT_WIDTH DEFAULT_HEIGHT ss) (\<lambda>uploaded ss1.
       case uploaded of
         Some img \<Rightarrow>
           bind_run (emit [Show_image img] ss1) (\<lambda>_ ss2.
             prompt_and_generate_button w ''img2img'' ''img2img''
               [(''image_input'', Py_image img)] ss2)
       | None \<Rightarrow> emit [] ss1)"

definition upscale_tab :: "world \<Rightarrow> session \<Rightarrow> (unit, event) run" where
  "upscale_tab w ss =
     (let prefix = ''upscale''
      in bind_run (image_uploader w prefix 256 256 ss) (\<lambda>uploaded ss1.
           bind_run (emit (case uploaded of Some img \<Rightarrow> [Show_image img] | None \<Rightarrow> []) ss1)
             (\<lambda>_ ss2.
               prompt_and_generate_button w prefix ''upscale''
                 [(''image_input'', py_image uploaded)] ss2)))"

text \<open>The body of \<open>with st.sidebar:\<close> in \<open>main\<close>.\<close>

definition sidebar_block :: "world \<Rightarrow> session \<Rightarrow> (unit, event) run" where
  "sidebar_block w ss =
     (let header = [Header ''Latest Output Image'']
      in case get_image OUTPUT_IMAGE_KEY ss of
           Some output_image \<Rightarrow>
             (let shown = header @ [Show_image output_image,
                    Widget ''Use this image for inpainting and img2img'' None]
              in if button w ''Use this image for inpainting and img2img'' None then
                   (Inl RerunException,
                    set_image LOADED_IMAGE_KEY (pil_copy output_image) ss,
                    shown @ [Pil (Copy output_image)])
                 else (Inr (), ss, shown))
         | None \<Rightarrow> (Inr (), ss, header @ [Markdown ''No output generated yet'']))"

definition tab_labels :: "string list" where
  "tab_labels =
     [''Text to Image (txt2img)'', ''Inpainting'', ''Image to image (img2img)'', ''Upscale'']"

definition main :: "world \<Rightarrow> session \<Rightarrow> (unit, place \<times> event) run" where
  "main w ss =
     bind_run (emit [(Page, Title ''Stable Diffusion 2.0 Simple Playground''),
                     (Page, Tabs tab_labels)] ss) (\<lambda>_ ss0.
     bind_run (inside (In_tab (tab_labels ! 0)) (txt2img_tab w ss0)) (\<lambda>_ ss1.
     bind_run (inside (In_tab (tab_labels ! 1)) (inpainting_tab w ss1)) (\<lambda>_ ss2.
     bind_run (inside (In_tab (tab_labels ! 2)) (img2img_tab w ss2)) (\<lambda>_ ss3.
     bind_run (inside (In_tab (tab_labels ! 3)) (upscale_tab w ss3)) (\<lambda>_ ss4.
     inside Sidebar (sidebar_block w ss4))))))"

section \<open>Observations on a run\<close>

text \<open>
  What the properties below read off a trace: the calls of \<open>generate\<close> in order, the
  images those calls returned, and the clicks on a \<open>Generate image\<close> button that is on
  the page.
\<close>

fun generate_calls :: "event list \<Rightarrow> gen_call list" where
  "generate_calls [] = []"
| "generate_calls (Generate c r # es) = c # generate_calls es"
| "generate_calls (_ # es) = generate_calls es"

fun generated :: "event list \<Rightarrow> image list" where
  "generated [] = []"
| "generated (Generate c (Some img) # es) = img # generated es"
| "generated (_ # es) = generated es"

fun generate_click :: "world \<Rightarrow> event \<Rightarrow> bool" where
  "generate_click w (Widget label key) = (label = ''Generate image'' \<and> button w label key)"
| "generate_click w _ = False"

definition balanced :: "world \<Rightarrow> event list \<Rightarrow> bool" where
  "balanced w es \<longleftrightarrow> length (generate_calls es) = length (filter (generate_click w) es)"

text \<open>
  The values the four widgets of \<open>prompt_and_generate_button\<close> hold for a prefix,
  together with a pipeline name and the caller's keyword arguments.
\<close>

definition collected :: "world \<Rightarrow> string \<Rightarrow> string \<Rightarrow> (string \<times> pyval) list \<Rightarrow> gen_call" where
  "collected w prefix pipeline_name kwargs =
     \<lparr>prompt_arg = text_area w ''Prompt'' DEFAULT_PROMPT (prefix @ ''-prompt''),
      pipeline_name_arg = pipeline_name,
      negative_prompt_arg = text_area w ''Negative prompt'' [] (prefix @ ''-negative-prompt''),
      steps_arg = slider w ''Number of inference steps'' 1 200 50 None (prefix @ ''-steps''),
      guidance_scale_arg =
        slider_float w ''Guidance scale'' 0 20 7.5 (Some 0.5) (prefix @ ''-guidance''),
      kwargs_arg = kwargs\<rparr>"

fun is_crop :: "event \<Rightarrow> bool" where
  "is_crop (Pil (Crop img box)) = True"
| "is_crop _ = False"

fun is_pil :: "event \<Rightarrow> bool" where
  "is_pil (Pil op) = True"
| "is_pil _ = False"

fun is_tabs :: "event \<Rightarrow> bool" where
  "is_tabs (Tabs labels) = True"
| "is_tabs _ = False"

text \<open>The tab a generation mode lives in, and the pipeline name that belongs to it.\<close>

definition tab_pipelines :: "(place \<times> string) list" where
  "tab_pipelines =
     [(In_tab ''Text to Image (txt2img)'', ''txt2img''),
      (In_tab ''Inpainting'', ''inpaint''),
      (In_tab ''Image to image (img2img)'', ''img2img''),
      (In_tab ''Upscale'', ''upscale'')]"

fun tab_pipeline :: "place \<times> event \<Rightarrow> bool" where
  "tab_pipeline (p, Generate c r) = ((p, pipeline_name_arg c) \<in> set tab_pipelines)"
| "tab_pipeline _ = True"

text \<open>
  The ranges of the sliders. \<open>size_ok\<close>: an integer multiple of 64 from 64 to 1024.
  \<open>call_in_range\<close>: steps from 1 to 200, guidance scale from 0 to 20, and every
  \<open>width\<close> or \<open>height\<close> keyword argument \<open>size_ok\<close>.
\<close>

definition size_ok :: "pyval \<Rightarrow> bool" where
  "size_ok v = (case v of Py_int n \<Rightarrow> 64 dvd n \<and> 64 \<le> n \<and> n \<le> 1024 | _ \<Rightarrow> False)"

definition call_in_range :: "gen_call \<Rightarrow> bool" where
  "call_in_range c \<longleftrightarrow>
     1 \<le> steps_arg c \<and> steps_arg c \<le> 200 \<and>
     0 \<le> guidance_scale_arg c \<and> guidance_scale_arg c \<le> 20 \<and>
     list_all (\<lambda>kv. fst kv \<in> {''width'', ''height''} \<longrightarrow> size_ok (snd kv)) (kwargs_arg c)"

text \<open>
  What Streamlit promises of a slider: started at a value between \<open>min_value\<close> and
  \<open>max_value\<close> that is a whole number of steps above \<open>min_value\<close>, it returns such a
  value (the step of an integer slider is 1 when the call gives none); a floating-point
  slider returns a value between its bounds.
\<close>

fun step_or_one :: "int option \<Rightarrow> int" where
  "step_or_one None = 1"
| "step_or_one (Some st) = st"

definition on_slider :: "int \<Rightarrow> int \<Rightarrow> int option \<Rightarrow> int \<Rightarrow> bool" where
  "on_slider lo hi st v \<longleftrightarrow> lo \<le> v \<and> v \<le> hi \<and> step_or_one st dvd (v - lo)"

definition slider_contract :: "world \<Rightarrow> bool" where
  "slider_contract w \<longleftrightarrow>
     (\<forall>label lo hi v st key.
        on_slider lo hi st v \<longrightarrow> on_slider lo hi st (slider w label lo hi v st key)) \<and>
     (\<forall>label lo hi v st key.
        lo \<le> v \<and> v \<le> hi \<longrightarrow>
          lo \<le> slider_float w label lo hi v st key \<and> slider_float w label lo hi v st key \<le> hi)"

text \<open>
  \<open>tracks g m ss\<close>: after the run \<open>m\<close>, started in session \<open>ss\<close>, the output image of
  the session is the image of the last successful generation of \<open>m\<close>, or the one of
  \<open>ss\<close> when \<open>m\<close> generated nothing (\<open>g\<close> reads the event off an entry of the trace).
\<close>

definition tracks :: "('e \<Rightarrow> event) \<Rightarrow> ('a, 'e) run \<Rightarrow> session \<Rightarrow> bool" where
  "tracks g m ss \<longleftrightarrow>
     get_image OUTPUT_IMAGE_KEY (session_of m) =
       (if generated (map g (trace m)) = [] then get_image OUTPUT_IMAGE_KEY ss
        else Some (last (generated (map g (trace m)))))"

text \<open>
  \<open>sidebar_shows m\<close>: if \<open>m\<close> got as far as the sidebar (it ended normally or with the
  rerun the sidebar's button asks for), the sidebar shows the stored output image, and
  the text \<open>No output generated yet\<close> exactly when none is stored.
\<close>

definition sidebar_shows :: "(unit, place \<times> event) run \<Rightarrow> bool" where
  "sidebar_shows m \<longleftrightarrow>
     (outcome m = Inr () \<or> outcome m = Inl RerunException \<longrightarrow>
        ((Sidebar, Markdown ''No output generated yet'') \<in> set (trace m)
           \<longleftrightarrow> get_image OUTPUT_IMAGE_KEY (session_of m) = None) \<and>
        (\<forall>img. (Sidebar, Show_image img) \<in> set (trace m)
           \<longleftrightarrow> get_image OUTPUT_IMAGE_KEY (session_of m) = Some img))"

definition no_rerun :: "('a, 'e) run \<Rightarrow> bool" where
  "no_rerun m \<longleftrightarrow> outcome m \<noteq> Inl RerunException"

subsection \<open>A concrete world\<close>

text \<open>
  A world to run the script in: every widget holds its initial value, the button with
  key \<open>clicked\<close> has just been clicked, \<open>uploads\<close> gives the uploaded files by the key
  of the uploader, and the canvas holds a drawing of one transparent and one opaque
  pixel. An empty file is no image; \<open>generate\<close> fails when its \<open>image_input\<close> is
  \<open>None\<close> and returns a 512 by 512 picture otherwise.
\<close>

definition example_world :: "string option \<Rightarrow> (string \<rightharpoonup> upload) \<Rightarrow> world" where
  "example_world clicked uploads =
     \<lparr>text_area = (\<lambda>label v key. v),
      slider = (\<lambda>label lo hi v st key. v),
      slider_float = (\<lambda>label lo hi v st key. v),
      button = (\<lambda>label key. key = clicked),
      file_uploader = (\<lambda>label types key. uploads key),
      number_input = (\<lambda>label v lo hi. v),
      st_canvas = (\<lambda>args. Some \<lparr>image_data = Some [[(0, 0, 0, 0), (255, 255, 255, 255)]]\<rparr>),
      image_open = (\<lambda>file. if file = [] then None else Some (Raster 640 480 (length file))),
      generate = (\<lambda>call. if (''image_input'', Py_none) \<in> set (kwargs_arg call) then None
                           else Some (Raster 512 512 7))\<rparr>"

lemmas example_simps =
  example_world_def main_def bind_run_def emit_def inside_def tab_labels_def txt2img_tab_def
  inpainting_tab_def img2img_tab_def upscale_tab_def sidebar_block_def inpainting_def
  image_uploader_def width_and_height_sliders_def prompt_and_generate_button_def get_image_def
  set_image_def pil_resize_def pil_copy_def pil_fromarray_def alpha_def mask_sum_def
  LOADED_IMAGE_KEY_def OUTPUT_IMAGE_KEY_def DEFAULT_PROMPT_def DEFAULT_WIDTH_def
  DEFAULT_HEIGHT_def collected_def Let_def

section \<open>Facts about runs\<close>

lemma outcome_tuple [simp]: "outcome (r, ss, es) = r"
  by (simp add: outcome_def)

lemma session_of_tuple [simp]: "session_of (r, ss, es) = ss"
  by (simp add: session_of_def)

lemma trace_tuple [simp]: "trace (r, ss, es) = es"
  by (simp add: trace_def)

lemma trace_bind_run:
  "trace (bind_run m f) =
     trace m @ (case outcome m of Inl e \<Rightarrow> [] | Inr x \<Rightarrow> trace (f x (session_of m)))"
  by (cases m; cases "fst m") (auto simp: bind_run_def split: prod.splits)

lemma outcome_bind_run:
  "outcome (bind_run m f) =
     (case outcome m of Inl e \<Rightarrow> Inl e | Inr x \<Rightarrow> outcome (f x (session_of m)))"
  by (cases m; cases "fst m") (auto simp: bind_run_def split: prod.splits)

lemma session_of_bind_run:
  "session_of (bind_run m f) =
     (case outcome m of Inl e \<Rightarrow> session_of m | Inr x \<Rightarrow> session_of (f x (session_of m)))"
  by (cases m; cases "fst m") (auto simp: bind_run_def split: prod.splits)

lemma trace_inside [simp]: "trace (inside p m) = map (Pair p) (trace m)"
  by (cases m) (simp add: inside_def)

lemma outcome_inside [simp]: "outcome (inside p m) = outcome m"
  by (cases m) (simp add: inside_def)

lemma session_of_inside [simp]: "session_of (inside p m) = session_of m"
  by (cases m) (simp add: inside_def)

lemma trace_emit [simp]: "trace (emit es ss) = es"
  by (simp add: emit_def)

lemma outcome_emit [simp]: "outcome (emit es ss) = Inr ()"
  by (simp add: emit_def)

lemma session_of_emit [simp]: "session_of (emit es ss) = ss"
  by (simp add: emit_def)

lemma bind_run_closed:
  assumes "Q []" and "\<And>a b. Q a \<Longrightarrow> Q b \<Longrightarrow> Q (a @ b)"
    and "Q (trace m)" and "\<And>x ss. Q (trace (f x ss))"
  shows "Q (trace (bind_run m f))"
  using assms by (simp add: trace_bind_run split: sum.splits)

lemma generate_calls_append [simp]:
  "generate_calls (es @ es') = generate_calls es @ generate_calls es'"
  by (induction es rule: generate_calls.induct) simp_all

lemma button_calls:
  "generate_calls (trace (prompt_and_generate_button w prefix name kw ss)) =
     (if button w ''Generate image'' (Some (prefix @ ''-btn''))
      then [collected w prefix name kw] else [])"
  by (simp add: prompt_and_generate_button_def collected_def Let_def split: option.splits)

lemma button_clicks:
  "filter (generate_click w) (trace (prompt_and_generate_button w prefix name kw ss)) =
     (if button w ''Generate image'' (Some (prefix @ ''-btn''))
      then [Widget ''Generate image'' (Some (prefix @ ''-btn''))] else [])"
  by (simp add: prompt_and_generate_button_def Let_def split: option.splits)

lemma uploader_calls [simp]:
  "generate_calls (trace (image_uploader w prefix width height ss)) = []"
  by (simp add: image_uploader_def Let_def split: option.splits)

lemma uploader_clicks [simp]:
  "filter (generate_click w) (trace (image_uploader w prefix width height ss)) = []"
  by (simp add: image_uploader_def Let_def split: option.splits)

lemma inpainting_calls [simp]: "generate_calls (trace (inpainting w ss)) = []"
  by (simp add: inpainting_def trace_bind_run Let_def split: option.splits sum.splits)

lemma inpainting_clicks [simp]: "filter (generate_click w) (trace (inpainting w ss)) = []"
  by (simp add: inpainting_def trace_bind_run Let_def split: option.splits sum.splits)

lemma balanced_Nil [simp]: "balanced w []"
  by (simp add: balanced_def)

lemma balanced_append: "balanced w a \<Longrightarrow> balanced w b \<Longrightarrow> balanced w (a @ b)"
  by (simp add: balanced_def)

lemma balanced_button: "balanced w (trace (prompt_and_generate_button w prefix name kw ss))"
  by (simp add: balanced_def button_calls button_clicks)

lemma balanced_sliders: "balanced w (trace (width_and_height_sliders w prefix ss))"
  by (simp add: balanced_def width_and_height_sliders_def Let_def)

lemma balanced_uploader: "balanced w (trace (image_uploader w prefix width height ss))"
  by (simp add: balanced_def)

lemma balanced_inpainting: "balanced w (trace (inpainting w ss))"
  by (simp add: balanced_def)

lemma balanced_emit: "balanced w es \<Longrightarrow> balanced w (trace (emit es ss))"
  by simp

lemma balanced_bind:
  "balanced w (trace m) \<Longrightarrow> (\<And>x ss. balanced w (trace (f x ss))) \<Longrightarrow>
   balanced w (trace (bind_run m f))"
  by (rule bind_run_closed [where Q = "balanced w"]) (simp_all add: balanced_append)

lemma balanced_txt2img: "balanced w (trace (txt2img_tab w ss))"
  unfolding txt2img_tab_def Let_def
  by (intro balanced_bind balanced_sliders) (simp add: balanced_button split: prod.splits)

lemma balanced_inpainting_tab: "balanced w (trace (inpainting_tab w ss))"
  unfolding inpainting_tab_def
  by (intro balanced_bind balanced_inpainting)
     (simp add: balanced_button split: prod.splits option.splits)

lemma balanced_img2img: "balanced w (trace (img2img_tab w ss))"
  by (simp add: img2img_tab_def balanced_def trace_bind_run button_calls button_clicks
        split: sum.splits option.splits)

lemma balanced_upscale: "balanced w (trace (upscale_tab w ss))"
  by (simp add: upscale_tab_def Let_def balanced_def trace_bind_run button_calls button_clicks
        split: sum.splits option.splits)

lemma balanced_sidebar: "balanced w (trace (sidebar_block w ss))"
  by (simp add: balanced_def sidebar_block_def Let_def split: option.splits)

lemma map_snd_Pair [simp]: "map (snd \<circ> Pair p) es = es"
  by (simp add: comp_def)

lemma balanced_main: "balanced w (map snd (trace (main w ss)))"
  unfolding main_def
  by (intro bind_run_closed [where Q = "\<lambda>es. balanced w (map snd es)"])
     (simp_all add: balanced_append balanced_txt2img balanced_inpainting_tab balanced_img2img
        balanced_upscale balanced_sidebar balanced_def [of w "[_, _]"])

lemma button_on_page:
  "Widget ''Generate image'' (Some (prefix @ ''-btn''))
     \<in> set (trace (prompt_and_generate_button w prefix name kw ss))"
  by (simp add: prompt_and_generate_button_def Let_def split: option.splits)

lemma uploader_no_button [simp]:
  "Widget ''Generate image'' k \<notin> set (trace (image_uploader w prefix width height ss))"
  by (simp add: image_uploader_def Let_def split: option.splits)

lemma inpainting_no_button [simp]:
  "Widget ''Generate image'' k \<notin> set (trace (inpainting w ss))"
  by (simp add: inpainting_def trace_bind_run Let_def split: option.splits sum.splits)

lemma txt2img_calls:
  "generate_calls (trace (txt2img_tab w ss)) =
     (if button w ''Generate image'' (Some ''txt2img-btn'') then
        [collected w ''txt2img'' ''txt2img''
           [(''width'', Py_int (slider w ''Width'' 64 1024 512 (Some 64) ''txt2img-width'')),
            (''height'', Py_int (slider w ''Height'' 64 1024 512 (Some 64) ''txt2img-height''))]]
      else [])"
  by (simp add: txt2img_tab_def width_and_height_sliders_def Let_def trace_bind_run button_calls)

lemma inpainting_tab_calls:
  "generate_calls (trace (inpainting_tab w ss)) =
     (case outcome (inpainting w ss) of
        Inr (Some image_input, Some mask_input) \<Rightarrow>
          if button w ''Generate image'' (Some ''inpaint-btn'') then
            [collected w ''inpaint'' ''inpaint''
               [(''image_input'', Py_image image_input), (''mask_input'', Py_image mask_input)]]
          else []
      | _ \<Rightarrow> [])"
  by (simp add: inpainting_tab_def trace_bind_run button_calls
        split: sum.splits option.splits prod.splits)

lemma img2img_calls:
  "generate_calls (trace (img2img_tab w ss)) =
     (case outcome (image_uploader w ''img2img'' DEFAULT_WIDTH DEFAULT_HEIGHT ss) of
        Inr (Some img) \<Rightarrow>
          if button w ''Generate image'' (Some ''img2img-btn'') then
            [collected w ''img2img'' ''img2img'' [(''image_input'', Py_image img)]]
          else []
      | _ \<Rightarrow> [])"
  by (simp add: img2img_tab_def trace_bind_run button_calls split: sum.splits option.splits)

lemma upscale_calls:
  "generate_calls (trace (upscale_tab w ss)) =
     (case outcome (image_uploader w ''upscale'' 256 256 ss) of
        Inr uploaded \<Rightarrow>
          if button w ''Generate image'' (Some ''upscale-btn'') then
            [collected w ''upscale'' ''upscale'' [(''image_input'', py_image uploaded)]]
          else []
      | Inl e \<Rightarrow> [])"
  by (simp add: upscale_tab_def Let_def trace_bind_run button_calls
        split: sum.splits option.splits)

lemma txt2img_once:
  "length (generate_calls (trace (txt2img_tab w ss))) =
     (if Widget ''Generate image'' (Some ''txt2img-btn'') \<in> set (trace (txt2img_tab w ss))
         \<and> button w ''Generate image'' (Some ''txt2img-btn'') then 1 else 0)"
  using button_on_page [of "''txt2img''" w]
  by (simp add: txt2img_tab_def width_and_height_sliders_def Let_def trace_bind_run button_calls)

lemma inpainting_tab_once:
  "length (generate_calls (trace (inpainting_tab w ss))) =
     (if Widget ''Generate image'' (Some ''inpaint-btn'') \<in> set (trace (inpainting_tab w ss))
         \<and> button w ''Generate image'' (Some ''inpaint-btn'') then 1 else 0)"
  using button_on_page [of "''inpaint''" w]
  by (simp add: inpainting_tab_def trace_bind_run button_calls
        split: sum.splits option.splits prod.splits)

lemma img2img_once:
  "length (generate_calls (trace (img2img_tab w ss))) =
     (if Widget ''Generate image'' (Some ''img2img-btn'') \<in> set (trace (img2img_tab w ss))
         \<and> button w ''Generate image'' (Some ''img2img-btn'') then 1 else 0)"
  using button_on_page [of "''img2img''" w]
  by (simp add: img2img_tab_def trace_bind_run button_calls split: sum.splits option.splits)

lemma upscale_once:
  "length (generate_calls (trace (upscale_tab w ss))) =
     (if Widget ''Generate image'' (Some ''upscale-btn'') \<in> set (trace (upscale_tab w ss))
         \<and> button w ''Generate image'' (Some ''upscale-btn'') then 1 else 0)"
  using button_on_page [of "''upscale''" w]
  by (simp add: upscale_tab_def Let_def trace_bind_run button_calls split: sum.splits option.splits)

lemma no_crop_button [simp]:
  "filter is_crop (trace (prompt_and_generate_button w prefix name kw ss)) = []"
  by (simp add: prompt_and_generate_button_def Let_def split: option.splits)

lemma no_crop_sliders [simp]:
  "filter is_crop (trace (width_and_height_sliders w prefix ss)) = []"
  by (simp add: width_and_height_sliders_def Let_def)

lemma no_crop_uploader [simp]:
  "filter is_crop (trace (image_uploader w prefix width height ss)) = []"
  by (simp add: image_uploader_def Let_def split: option.splits)

lemma no_crop_inpainting [simp]: "filter is_crop (trace (inpainting w ss)) = []"
  by (simp add: inpainting_def trace_bind_run Let_def split: option.splits sum.splits)

lemma no_crop_txt2img: "filter is_crop (trace (txt2img_tab w ss)) = []"
  by (simp add: txt2img_tab_def Let_def trace_bind_run split: sum.splits prod.splits)

lemma no_crop_inpainting_tab: "filter is_crop (trace (inpainting_tab w ss)) = []"
  by (simp add: inpainting_tab_def trace_bind_run split: sum.splits prod.splits option.splits)

lemma no_crop_img2img: "filter is_crop (trace (img2img_tab w ss)) = []"
  by (simp add: img2img_tab_def trace_bind_run split: sum.splits option.splits)

lemma no_crop_upscale: "filter is_crop (trace (upscale_tab w ss)) = []"
  by (simp add: upscale_tab_def Let_def trace_bind_run split: sum.splits option.splits)

lemma no_crop_sidebar: "filter is_crop (trace (sidebar_block w ss)) = []"
  by (simp add: sidebar_block_def Let_def split: option.splits)

lemma no_crop_main: "filter is_crop (map snd (trace (main w ss))) = []"
  unfolding main_def
  by (intro bind_run_closed [where Q = "\<lambda>es. filter is_crop (map snd es) = []"])
     (simp_all add: no_crop_txt2img no_crop_inpainting_tab no_crop_img2img no_crop_upscale
        no_crop_sidebar)

lemma tab_pipeline_calls:
  "list_all tab_pipeline (map (Pair p) es) \<longleftrightarrow>
     (\<forall>c \<in> set (generate_calls es). (p, pipeline_name_arg c) \<in> set tab_pipelines)"
  by (induction es rule: generate_calls.induct) simp_all

lemma pipeline_collected [simp]: "pipeline_name_arg (collected w prefix name kw) = name"
  by (simp add: collected_def)

lemma pipeline_txt2img:
  "c \<in> set (generate_calls (trace (txt2img_tab w ss))) \<Longrightarrow> pipeline_name_arg c = ''txt2img''"
  by (simp add: txt2img_calls split: if_splits)

lemma pipeline_inpainting_tab:
  "c \<in> set (generate_calls (trace (inpainting_tab w ss))) \<Longrightarrow> pipeline_name_arg c = ''inpaint''"
  by (auto simp: inpainting_tab_calls split: if_splits sum.splits option.splits prod.splits)

lemma pipeline_img2img:
  "c \<in> set (generate_calls (trace (img2img_tab w ss))) \<Longrightarrow> pipeline_name_arg c = ''img2img''"
  by (auto simp: img2img_calls split: if_splits sum.splits option.splits)

lemma pipeline_upscale:
  "c \<in> set (generate_calls (trace (upscale_tab w ss))) \<Longrightarrow> pipeline_name_arg c = ''upscale''"
  by (auto simp: upscale_calls split: if_splits sum.splits)

lemma sidebar_calls [simp]: "generate_calls (trace (sidebar_block w ss)) = []"
  by (simp add: sidebar_block_def Let_def split: option.splits)

lemma pipeline_main: "list_all tab_pipeline (trace (main w ss))"
  unfolding main_def
  by (intro bind_run_closed [where Q = "list_all tab_pipeline"])
     (simp_all add: tab_pipeline_calls tab_labels_def tab_pipelines_def pipeline_txt2img
        pipeline_inpainting_tab pipeline_img2img pipeline_upscale)

lemma collected_in_range:
  assumes "slider_contract w"
    and "list_all (\<lambda>kv. fst kv \<in> {''width'', ''height''} \<longrightarrow> size_ok (snd kv)) kw"
  shows "call_in_range (collected w prefix name kw)"
proof -
  have "on_slider 1 200 None 50" by (simp add: on_slider_def)
  with assms(1) have "on_slider 1 200 None
      (slider w ''Number of inference steps'' 1 200 50 None (prefix @ ''-steps''))"
    unfolding slider_contract_def by blast
  moreover have "(0::real) \<le> 7.5 \<and> (7.5::real) \<le> 20" by simp
  with assms(1) have "0 \<le> slider_float w ''Guidance scale'' 0 20 7.5 (Some 0.5) (prefix @ ''-guidance'')
      \<and> slider_float w ''Guidance scale'' 0 20 7.5 (Some 0.5) (prefix @ ''-guidance'') \<le> 20"
    unfolding slider_contract_def by blast
  ultimately show ?thesis
    using assms(2) by (simp add: call_in_range_def collected_def on_slider_def)
qed

lemma slider_size_ok:
  assumes "slider_contract w"
  shows "size_ok (Py_int (slider w label 64 1024 512 (Some 64) key))"
proof -
  have "on_slider 64 1024 (Some 64) 512" by (simp add: on_slider_def)
  with assms have "on_slider 64 1024 (Some 64) (slider w label 64 1024 512 (Some 64) key)"
    unfolding slider_contract_def by blast
  then show ?thesis
    by (simp add: on_slider_def size_ok_def) presburger
qed

lemma in_range_main:
  assumes "slider_contract w"
  shows "list_all call_in_range (generate_calls (map snd (trace (main w ss))))"
  unfolding main_def
  by (intro bind_run_closed
        [where Q = "\<lambda>es. list_all call_in_range (generate_calls (map snd es))"])
     (simp_all add: txt2img_calls inpainting_tab_calls img2img_calls upscale_calls
        collected_in_range [OF assms] slider_size_ok [OF assms] sidebar_block_def Let_def
        split: sum.splits option.splits prod.splits)

lemma generated_append [simp]: "generated (es @ es') = generated es @ generated es'"
  by (induction es rule: generated.induct) simp_all

lemma tracks_bind:
  assumes "tracks g m ss" and "\<And>x ss1. tracks g (f x ss1) ss1"
  shows "tracks g (bind_run m f) ss"
proof (cases "outcome m")
  case (Inl e)
  with assms(1) show ?thesis
    by (simp add: tracks_def trace_bind_run session_of_bind_run)
next
  case (Inr x)
  with assms(1) assms(2) [of x "session_of m"] show ?thesis
    by (simp add: tracks_def trace_bind_run session_of_bind_run)
qed

lemma tracks_inside: "tracks (\<lambda>e. e) m ss \<Longrightarrow> tracks snd (inside p m) ss"
  by (simp add: tracks_def)

lemma tracks_button: "tracks (\<lambda>e. e) (prompt_and_generate_button w prefix name kw ss) ss"
  by (simp add: tracks_def prompt_and_generate_button_def Let_def get_image_def set_image_def
        pil_copy_def split: option.splits)

lemma tracks_sliders: "tracks (\<lambda>e. e) (width_and_height_sliders w prefix ss) ss"
  by (simp add: tracks_def width_and_height_sliders_def Let_def)

lemma tracks_uploader: "tracks (\<lambda>e. e) (image_uploader w prefix width height ss) ss"
  by (simp add: tracks_def image_uploader_def Let_def split: option.splits)

lemma tracks_emit: "generated es = [] \<Longrightarrow> tracks (\<lambda>e. e) (emit es ss) ss"
  by (simp add: tracks_def)

lemma tracks_inpainting: "tracks (\<lambda>e. e) (inpainting w ss) ss"
  unfolding inpainting_def
  by (intro tracks_bind tracks_uploader) (simp add: tracks_def Let_def split: option.splits)

lemma tracks_txt2img: "tracks (\<lambda>e. e) (txt2img_tab w ss) ss"
  unfolding txt2img_tab_def Let_def
  by (intro tracks_bind tracks_sliders) (simp add: tracks_button split: prod.splits)

lemma tracks_inpainting_tab: "tracks (\<lambda>e. e) (inpainting_tab w ss) ss"
  unfolding inpainting_tab_def
  by (intro tracks_bind tracks_inpainting)
     (simp add: tracks_button tracks_emit split: prod.splits option.splits)

lemma tracks_img2img: "tracks (\<lambda>e. e) (img2img_tab w ss) ss"
  unfolding img2img_tab_def
  by (intro tracks_bind tracks_uploader)
     (auto simp: tracks_button tracks_emit split: option.splits intro!: tracks_bind)

lemma tracks_upscale: "tracks (\<lambda>e. e) (upscale_tab w ss) ss"
  unfolding upscale_tab_def Let_def
  by (intro tracks_bind tracks_uploader tracks_emit tracks_button) (simp split: option.splits)

lemma keys_differ: "OUTPUT_IMAGE_KEY \<noteq> LOADED_IMAGE_KEY"
  by (simp add: OUTPUT_IMAGE_KEY_def LOADED_IMAGE_KEY_def)

lemma tracks_sidebar: "tracks (\<lambda>e. e) (sidebar_block w ss) ss"
  using keys_differ
  by (simp add: tracks_def sidebar_block_def Let_def get_image_def set_image_def
        split: option.splits)

lemma tracks_main: "tracks snd (main w ss) ss"
  unfolding main_def
  by (intro tracks_bind tracks_inside tracks_txt2img tracks_inpainting_tab tracks_img2img
        tracks_upscale tracks_sidebar) (simp add: tracks_def)

lemma no_rerun_bind:
  "no_rerun m \<Longrightarrow> (\<And>x ss. no_rerun (f x ss)) \<Longrightarrow> no_rerun (bind_run m f)"
  by (auto simp: no_rerun_def outcome_bind_run split: sum.splits)

lemma no_rerun_button: "no_rerun (prompt_and_generate_button w prefix name kw ss)"
  by (simp add: no_rerun_def prompt_and_generate_button_def Let_def split: option.splits)

lemma no_rerun_uploader: "no_rerun (image_uploader w prefix width height ss)"
  by (simp add: no_rerun_def image_uploader_def Let_def split: option.splits)

lemma no_rerun_sliders: "no_rerun (width_and_height_sliders w prefix ss)"
  by (simp add: no_rerun_def width_and_height_sliders_def Let_def)

lemma no_rerun_emit: "no_rerun (emit es ss)"
  by (simp add: no_rerun_def)

lemma no_rerun_inpainting: "no_rerun (inpainting w ss)"
  unfolding inpainting_def
  by (intro no_rerun_bind no_rerun_uploader) (simp add: no_rerun_def Let_def split: option.splits)

lemma no_rerun_txt2img: "no_rerun (txt2img_tab w ss)"
  unfolding txt2img_tab_def Let_def
  by (intro no_rerun_bind no_rerun_sliders) (simp add: no_rerun_button split: prod.splits)

lemma no_rerun_inpainting_tab: "no_rerun (inpainting_tab w ss)"
  unfolding inpainting_tab_def
  by (intro no_rerun_bind no_rerun_inpainting)
     (simp add: no_rerun_button no_rerun_emit split: prod.splits option.splits)

lemma no_rerun_img2img: "no_rerun (img2img_tab w ss)"
  unfolding img2img_tab_def
  by (intro no_rerun_bind no_rerun_uploader)
     (auto simp: no_rerun_button no_rerun_emit split: option.splits intro!: no_rerun_bind)

lemma no_rerun_upscale: "no_rerun (upscale_tab w ss)"
  unfolding upscale_tab_def Let_def
  by (intro no_rerun_bind no_rerun_uploader no_rerun_emit no_rerun_button)

lemma sidebar_shows_bind:
  assumes "no_rerun m" and "\<forall>e \<in> set (trace m). fst e \<noteq> Sidebar"
    and "\<And>x ss. sidebar_shows (f x ss)"
  shows "sidebar_shows (bind_run m f)"
proof (cases "outcome m")
  case (Inl e)
  with assms(1) show ?thesis
    by (simp add: sidebar_shows_def no_rerun_def outcome_bind_run)
next
  case (Inr x)
  have "(Sidebar, e) \<notin> set (trace m)" for e
    using assms(2) by force
  with Inr assms(3) [of x "session_of m"] show ?thesis
    by (simp add: sidebar_shows_def outcome_bind_run trace_bind_run session_of_bind_run)
qed

lemma sidebar_shows_block: "sidebar_shows (inside Sidebar (sidebar_block w ss))"
  using keys_differ
  by (auto simp: sidebar_shows_def sidebar_block_def Let_def get_image_def set_image_def
        split: option.splits)

lemma no_rerun_inside: "no_rerun m \<Longrightarrow> no_rerun (inside p m)"
  by (simp add: no_rerun_def)

lemma sidebar_shows_main: "sidebar_shows (main w ss)"
  unfolding main_def
  by (intro sidebar_shows_bind sidebar_shows_block no_rerun_inside no_rerun_txt2img
        no_rerun_inpainting_tab no_rerun_img2img no_rerun_upscale no_rerun_emit)
     (auto simp: tab_labels_def)

lemma trace_bind_emit: "trace (bind_run (emit es ss) f) = es @ trace (f () ss)"
  by (simp add: trace_bind_run)

lemma no_tabs_button [simp]:
  "filter is_tabs (trace (prompt_and_generate_button w prefix name kw ss)) = []"
  by (simp add: prompt_and_generate_button_def Let_def split: option.splits)

lemma no_tabs_uploader [simp]:
  "filter is_tabs (trace (image_uploader w prefix width height ss)) = []"
  by (simp add: image_uploader_def Let_def split: option.splits)

lemma no_tabs_inpainting [simp]: "filter is_tabs (trace (inpainting w ss)) = []"
  by (simp add: inpainting_def trace_bind_run Let_def split: option.splits sum.splits)

lemma no_tabs_txt2img: "filter is_tabs (trace (txt2img_tab w ss)) = []"
  by (simp add: txt2img_tab_def width_and_height_sliders_def Let_def trace_bind_run
        split: sum.splits prod.splits)

lemma no_tabs_inpainting_tab: "filter is_tabs (trace (inpainting_tab w ss)) = []"
  by (simp add: inpainting_tab_def trace_bind_run split: sum.splits prod.splits option.splits)

lemma no_tabs_img2img: "filter is_tabs (trace (img2img_tab w ss)) = []"
  by (simp add: img2img_tab_def trace_bind_run split: sum.splits option.splits)

lemma no_tabs_upscale: "filter is_tabs (trace (upscale_tab w ss)) = []"
  by (simp add: upscale_tab_def Let_def trace_bind_run split: sum.splits option.splits)

lemma no_tabs_sidebar: "filter is_tabs (trace (sidebar_block w ss)) = []"
  by (simp add: sidebar_block_def Let_def split: option.splits)

lemma tabs_main: "filter is_tabs (map snd (trace (main w ss))) = [Tabs tab_labels]"
proof -
  have "filter is_tabs (map snd (trace (
     bind_run (inside (In_tab (tab_labels ! 0)) (txt2img_tab w ss0)) (\<lambda>_ ss1.
     bind_run (inside (In_tab (tab_labels ! 1)) (inpainting_tab w ss1)) (\<lambda>_ ss2.
     bind_run (inside (In_tab (tab_labels ! 2)) (img2img_tab w ss2)) (\<lambda>_ ss3.
     bind_run (inside (In_tab (tab_labels ! 3)) (upscale_tab w ss3)) (\<lambda>_ ss4.
     inside Sidebar (sidebar_block w ss4)))))))) = []" for ss0
    by (intro bind_run_closed [where Q = "\<lambda>es. filter is_tabs (map snd es) = []"])
       (simp_all add: no_tabs_txt2img no_tabs_inpainting_tab no_tabs_img2img no_tabs_upscale
          no_tabs_sidebar)
  then show ?thesis
    by (simp add: main_def trace_bind_emit)
qed

lemma uploader_resize_logged:
  "file_uploader w ''Image'' [''jpg'', ''png''] (prefix @ ''-uploader'') = Some upl \<Longrightarrow>
   image_open w upl = Some img \<Longrightarrow>
   Pil (Resize img (width, height)) \<in> set (trace (image_uploader w prefix width height ss))"
  by (simp add: image_uploader_def Let_def split: option.splits)

lemma uploader_resized:
  "file_uploader w ''Image'' [''jpg'', ''png''] (prefix @ ''-uploader'') = Some upl \<Longrightarrow>
   image_open w upl = Some img \<Longrightarrow> 1 \<le> width \<Longrightarrow> 1 \<le> height \<Longrightarrow>
   outcome (image_uploader w prefix width height ss) = Inr (Some (Resized img width height))"
  by (simp add: image_uploader_def pil_resize_def Let_def)

lemma uploader_stored:
  "file_uploader w ''Image'' [''jpg'', ''png''] (prefix @ ''-uploader'') = None \<Longrightarrow>
   image_uploader w prefix width height ss =
     (Inr (get_image LOADED_IMAGE_KEY ss), ss, [Widget ''Image'' (Some (prefix @ ''-uploader''))])"
  by (simp add: image_uploader_def Let_def)

lemma uploader_session [simp]: "session_of (image_uploader w prefix width height ss) = ss"
  by (simp add: image_uploader_def Let_def split: option.splits)

lemma mask_sum_pos:
  "0 < mask_sum (map (map (\<lambda>p. 0 < alpha p)) data)
     \<longleftrightarrow> (\<exists>row \<in> set data. \<exists>p \<in> set row. 0 < alpha p)"
proof -
  have "mask_sum (map (map (\<lambda>p. 0 < alpha p)) data) = 0
      \<longleftrightarrow> (\<forall>row \<in> set data. \<forall>p \<in> set row. \<not> 0 < alpha p)"
    by (simp add: mask_sum_def filter_empty_conv)
  then show ?thesis
    by (metis gr0I less_numeral_extra(3))
qed

lemma inpainting_both:
  assumes "outcome (inpainting w ss) = Inr (Some i, Some m)"
  shows "outcome (image_uploader w ''inpainting'' DEFAULT_WIDTH DEFAULT_HEIGHT ss) = Inr (Some i)
    \<and> (\<exists>args cr data. background_image args = i \<and> canvas_key args = ''inpainting'' \<and>
          st_canvas w args = Some cr \<and> image_data cr = Some data \<and>
          (\<exists>row \<in> set data. \<exists>p \<in> set row. 0 < alpha p) \<and>
          m = pil_fromarray (map (map (\<lambda>p. 0 < alpha p)) data))"
proof -
  let ?args = "\<lambda>img. \<lparr>fill_color = ''rgba(255, 255, 255, 0.0)'',
      stroke_width = number_input w ''Brush Size'' 50 1 100,
      stroke_color = ''#FFFFFF'', background_color = ''#000000'',
      background_image = img, update_streamlit = True,
      canvas_height = image_height img, canvas_width = image_width img,
      drawing_mode = ''freedraw'', canvas_key = ''inpainting''\<rparr>"
  from assms have up:
    "outcome (image_uploader w ''inpainting'' DEFAULT_WIDTH DEFAULT_HEIGHT ss) = Inr (Some i)"
    by (auto simp: inpainting_def outcome_bind_run Let_def
          split: sum.splits option.splits if_splits)
  with assms obtain cr data where "st_canvas w (?args i) = Some cr"
    and "image_data cr = Some data"
    and "0 < mask_sum (map (map (\<lambda>p. 0 < alpha p)) data)"
    and "m = pil_fromarray (map (map (\<lambda>p. 0 < alpha p)) data)"
    by (auto simp: inpainting_def outcome_bind_run Let_def
          split: sum.splits option.splits if_splits)
  moreover have "background_image (?args i) = i \<and> canvas_key (?args i) = ''inpainting''"
    by simp
  ultimately show ?thesis
    using up unfolding mask_sum_pos by blast
qed

lemma inpainting_all_or_nothing:
  "outcome (inpainting w ss) = Inr r \<Longrightarrow> r = (None, None) \<or> (\<exists>i m. r = (Some i, Some m))"
  by (auto simp: inpainting_def outcome_bind_run Let_def
        split: sum.splits option.splits if_splits)

lemma inpainting_without_image:
  "outcome (image_uploader w ''inpainting'' DEFAULT_WIDTH DEFAULT_HEIGHT ss) = Inr None \<Longrightarrow>
   outcome (inpainting w ss) = Inr (None, None)"
  by (simp add: inpainting_def outcome_bind_run)

lemma inpainting_tab_flow:
  assumes "Widget ''Generate image'' k \<in> set (trace (inpainting_tab w ss))"
  shows "\<exists>i m. outcome (inpainting w ss) = Inr (Some i, Some m)"
proof (cases "outcome (inpainting w ss)")
  case (Inl e)
  with assms show ?thesis
    by (simp add: inpainting_tab_def trace_bind_run)
next
  case (Inr r)
  obtain a b where r: "r = (a, b)"
    by (cases r)
  from assms Inr r show ?thesis
    by (cases a; cases b) (simp_all add: inpainting_tab_def trace_bind_run)
qed

lemma img2img_flow:
  assumes "Widget ''Generate image'' k \<in> set (trace (img2img_tab w ss))"
  shows "\<exists>i. outcome (image_uploader w ''img2img'' DEFAULT_WIDTH DEFAULT_HEIGHT ss)
            = Inr (Some i)"
proof (cases "outcome (image_uploader w ''img2img'' DEFAULT_WIDTH DEFAULT_HEIGHT ss)")
  case (Inl e)
  with assms show ?thesis
    by (simp add: img2img_tab_def trace_bind_run)
next
  case (Inr a)
  with assms show ?thesis
    by (cases a) (simp_all add: img2img_tab_def trace_bind_run)
qed

lemma upscale_flow:
  "outcome (image_uploader w ''upscale'' 256 256 ss) = Inr u \<Longrightarrow>
   Widget ''Generate image'' (Some ''upscale-btn'') \<in> set (trace (upscale_tab w ss))"
  using button_on_page [of "''upscale''" w]
  by (simp add: upscale_tab_def Let_def trace_bind_run)

lemma upscale_without_image:
  "file_uploader w ''Image'' [''jpg'', ''png''] ''upscale-uploader'' = None \<Longrightarrow>
   get_image LOADED_IMAGE_KEY ss = None \<Longrightarrow>
   button w ''Generate image'' (Some ''upscale-btn'') \<Longrightarrow>
   generate_calls (trace (upscale_tab w ss)) =
     [collected w ''upscale'' ''upscale'' [(''image_input'', Py_none)]]"
  using uploader_stored [of w "''upscale''" 256 256 ss]
  by (simp add: upscale_calls)

section \<open>Generation\<close>

text \<open>
  C1. Every image generation goes through exactly one call of the external \<open>generate\<close>:
  \<open>prompt_and_generate_button\<close> calls it once when its button is clicked and not at all
  otherwise; each of the four tabs calls it once when its \<open>Generate image\<close> button is on
  the page and clicked, and not at all otherwise; and in a whole run of \<open>main\<close> there are
  exactly as many calls of \<open>generate\<close> as clicked \<open>Generate image\<close> buttons on the page,
  so no call comes from anywhere else.
\<close>

theorem generate_exactly_once:
  "length (generate_calls (trace (prompt_and_generate_button w prefix name kw ss))) =
     (if button w ''Generate image'' (Some (prefix @ ''-btn'')) then 1 else 0)
   \<and> length (generate_calls (trace (txt2img_tab w ss))) =
     (if Widget ''Generate image'' (Some ''txt2img-btn'') \<in> set (trace (txt2img_tab w ss))
         \<and> button w ''Generate image'' (Some ''txt2img-btn'') then 1 else 0)
   \<and> length (generate_calls (trace (inpainting_tab w ss))) =
     (if Widget ''Generate image'' (Some ''inpaint-btn'') \<in> set (trace (inpainting_tab w ss))
         \<and> button w ''Generate image'' (Some ''inpaint-btn'') then 1 else 0)
   \<and> length (generate_calls (trace (img2img_tab w ss))) =
     (if Widget ''Generate image'' (Some ''img2img-btn'') \<in> set (trace (img2img_tab w ss))
         \<and> button w ''Generate image'' (Some ''img2img-btn'') then 1 else 0)
   \<and> length (generate_calls (trace (upscale_tab w ss))) =
     (if Widget ''Generate image'' (Some ''upscale-btn'') \<in> set (trace (upscale_tab w ss))
         \<and> button w ''Generate image'' (Some ''upscale-btn'') then 1 else 0)
   \<and> length (generate_calls (map snd (trace (main w ss)))) =
     length (filter (generate_click w) (map snd (trace (main w ss))))"
proof -
  have "length (generate_calls (map snd (trace (main w ss)))) =
     length (filter (generate_click w) (map snd (trace (main w ss))))"
    using balanced_main [of w ss] by (simp add: balanced_def)
  then show ?thesis
    using txt2img_once [of w ss] inpainting_tab_once [of w ss] img2img_once [of w ss]
      upscale_once [of w ss]
    by (simp only: button_calls) simp
qed

theorem generate_exactly_once_witness:
  "length (generate_calls (map snd (trace
      (main (example_world (Some ''inpaint-btn'') [''inpainting-uploader'' \<mapsto> [1, 2, 3]])
         Map.empty)))) = 1
   \<and> length (filter (generate_click
        (example_world (Some ''inpaint-btn'') [''inpainting-uploader'' \<mapsto> [1, 2, 3]]))
      (map snd (trace
        (main (example_world (Some ''inpaint-btn'') [''inpainting-uploader'' \<mapsto> [1, 2, 3]])
           Map.empty)))) = 1"
  using generate_exactly_once
    [of "example_world (Some ''inpaint-btn'') [''inpainting-uploader'' \<mapsto> [1, 2, 3]]"
        "''inpaint''" "''inpaint''" "[]" Map.empty]
  by (simp add: example_simps)

text \<open>
  C3. When the \<open>Generate image\<close> button of a tab is clicked, \<open>generate\<close> receives the
  values collected from the widgets of that tab, unchanged: the prompt, the negative
  prompt, the steps and the guidance scale of the tab's own widgets, and as keyword
  arguments the two slider values \<open>width\<close> and \<open>height\<close> in the txt2img tab, the image
  returned by \<open>image_uploader\<close> in the img2img and upscale tabs, and the image and the
  mask returned by \<open>inpainting\<close> in the inpainting tab.
\<close>

theorem generate_receives_widget_values:
  "generate_calls (trace (prompt_and_generate_button w prefix name kw ss)) =
     (if button w ''Generate image'' (Some (prefix @ ''-btn''))
      then [collected w prefix name kw] else [])
   \<and> generate_calls (trace (txt2img_tab w ss)) =
     (if button w ''Generate image'' (Some ''txt2img-btn'') then
        [collected w ''txt2img'' ''txt2img''
           [(''width'', Py_int (slider w ''Width'' 64 1024 512 (Some 64) ''txt2img-width'')),
            (''height'', Py_int (slider w ''Height'' 64 1024 512 (Some 64) ''txt2img-height''))]]
      else [])
   \<and> generate_calls (trace (inpainting_tab w ss)) =
     (case outcome (inpainting w ss) of
        Inr (Some image_input, Some mask_input) \<Rightarrow>
          if button w ''Generate image'' (Some ''inpaint-btn'') then
            [collected w ''inpaint'' ''inpaint''
               [(''image_input'', Py_image image_input), (''mask_input'', Py_image mask_input)]]
          else []
      | _ \<Rightarrow> [])
   \<and> generate_calls (trace (img2img_tab w ss)) =
     (case outcome (image_uploader w ''img2img'' DEFAULT_WIDTH DEFAULT_HEIGHT ss) of
        Inr (Some img) \<Rightarrow>
          if button w ''Generate image'' (Some ''img2img-btn'') then
            [collected w ''img2img'' ''img2img'' [(''image_input'', Py_image img)]]
          else []
      | _ \<Rightarrow> [])
   \<and> generate_calls (trace (upscale_tab w ss)) =
     (case outcome (image_uploader w ''upscale'' 256 256 ss) of
        Inr uploaded \<Rightarrow>
          if button w ''Generate image'' (Some ''upscale-btn'') then
            [collected w ''upscale'' ''upscale'' [(''image_input'', py_image uploaded)]]
          else []
      | Inl e \<Rightarrow> [])"
  by (simp only: button_calls txt2img_calls inpainting_tab_calls img2img_calls upscale_calls)

theorem generate_receives_widget_values_witness:
  "generate_calls (trace (upscale_tab
      (example_world (Some ''upscale-btn'') [''upscale-uploader'' \<mapsto> [1, 2, 3]]) Map.empty)) =
     [\<lparr>prompt_arg = ''border collie puppy'', pipeline_name_arg = ''upscale'',
       negative_prompt_arg = [], steps_arg = 50, guidance_scale_arg = 7.5,
       kwargs_arg = [(''image_input'', Py_image (Resized (Raster 640 480 3) 256 256))]\<rparr>]"
  using generate_receives_widget_values
    [of "example_world (Some ''upscale-btn'') [''upscale-uploader'' \<mapsto> [1, 2, 3]]"
        "''upscale''" "''upscale''" "[]" Map.empty]
  by (simp add: example_simps)

text \<open>
  C4. After a successful generation \<open>prompt_and_generate_button\<close> stores a copy of the
  produced image under the output-image key and renders the image, and the sidebar
  block, run on the session it leaves, shows that image. A run of \<open>main\<close>
  leaves the image of its last successful generation under that key; when the run gets
  as far as the sidebar (it ends normally, or with the rerun the sidebar's button asks
  for), the sidebar shows exactly the stored output image, and the text
  \<open>No output generated yet\<close> if and only if no output image is stored. The last part
  restates the two equivalences for the sidebar block on its own.
\<close>

theorem output_stored_and_shown:
  "(button w ''Generate image'' (Some (prefix @ ''-btn'')) \<and>
    generate w (collected w prefix name kw) = Some img \<longrightarrow>
      outcome (prompt_and_generate_button w prefix name kw ss) = Inr () \<and>
      session_of (prompt_and_generate_button w prefix name kw ss)
        = ss(OUTPUT_IMAGE_KEY \<mapsto> pil_copy img) \<and>
      get_image OUTPUT_IMAGE_KEY (session_of (prompt_and_generate_button w prefix name kw ss))
        = Some img \<and>
      Show_image img \<in> set (trace (prompt_and_generate_button w prefix name kw ss)) \<and>
      Show_image img \<in> set (trace
        (sidebar_block w' (session_of (prompt_and_generate_button w prefix name kw ss)))))
   \<and> (generated (map snd (trace (main w ss))) \<noteq> [] \<longrightarrow>
        get_image OUTPUT_IMAGE_KEY (session_of (main w ss))
          = Some (last (generated (map snd (trace (main w ss))))))
   \<and> (outcome (main w ss) = Inr () \<or> outcome (main w ss) = Inl RerunException \<longrightarrow>
        ((Sidebar, Markdown ''No output generated yet'') \<in> set (trace (main w ss))
           \<longleftrightarrow> get_image OUTPUT_IMAGE_KEY (session_of (main w ss)) = None) \<and>
        (\<forall>shown. (Sidebar, Show_image shown) \<in> set (trace (main w ss))
           \<longleftrightarrow> get_image OUTPUT_IMAGE_KEY (session_of (main w ss)) = Some shown))
   \<and> ((Markdown ''No output generated yet'' \<in> set (trace (sidebar_block w ss))
           \<longleftrightarrow> get_image OUTPUT_IMAGE_KEY ss = None) \<and>
        (\<forall>shown. Show_image shown \<in> set (trace (sidebar_block w ss))
           \<longleftrightarrow> get_image OUTPUT_IMAGE_KEY ss = Some shown))"
proof -
  have stored: "button w ''Generate image'' (Some (prefix @ ''-btn'')) \<and>
    generate w (collected w prefix name kw) = Some img \<longrightarrow>
      outcome (prompt_and_generate_button w prefix name kw ss) = Inr () \<and>
      session_of (prompt_and_generate_button w prefix name kw ss)
        = ss(OUTPUT_IMAGE_KEY \<mapsto> pil_copy img) \<and>
      get_image OUTPUT_IMAGE_KEY (session_of (prompt_and_generate_button w prefix name kw ss))
        = Some img \<and>
      Show_image img \<in> set (trace (prompt_and_generate_button w prefix name kw ss)) \<and>
      Show_image img \<in> set (trace
        (sidebar_block w' (session_of (prompt_and_generate_button w prefix name kw ss))))"
    by (simp add: prompt_and_generate_button_def collected_def Let_def get_image_def
          set_image_def pil_copy_def sidebar_block_def)
  have latest: "generated (map snd (trace (main w ss))) \<noteq> [] \<longrightarrow>
        get_image OUTPUT_IMAGE_KEY (session_of (main w ss))
          = Some (last (generated (map snd (trace (main w ss)))))"
    using tracks_main [of w ss] by (simp add: tracks_def)
  have side: "outcome (main w ss) = Inr () \<or> outcome (main w ss) = Inl RerunException \<longrightarrow>
        ((Sidebar, Markdown ''No output generated yet'') \<in> set (trace (main w ss))
           \<longleftrightarrow> get_image OUTPUT_IMAGE_KEY (session_of (main w ss)) = None) \<and>
        (\<forall>shown. (Sidebar, Show_image shown) \<in> set (trace (main w ss))
           \<longleftrightarrow> get_image OUTPUT_IMAGE_KEY (session_of (main w ss)) = Some shown)"
    using sidebar_shows_main [of w ss] unfolding sidebar_shows_def by blast
  have block: "(Markdown ''No output generated yet'' \<in> set (trace (sidebar_block w ss))
           \<longleftrightarrow> get_image OUTPUT_IMAGE_KEY ss = None) \<and>
        (\<forall>shown. Show_image shown \<in> set (trace (sidebar_block w ss))
           \<longleftrightarrow> get_image OUTPUT_IMAGE_KEY ss = Some shown)"
    by (auto simp: sidebar_block_def Let_def split: option.splits)
  from stored latest side block show ?thesis by blast
qed

theorem output_stored_and_shown_witness:
  "button (example_world (Some ''txt2img-btn'') Map.empty) ''Generate image''
      (Some (''txt2img'' @ ''-btn''))
   \<and> generate (example_world (Some ''txt2img-btn'') Map.empty)
        (collected (example_world (Some ''txt2img-btn'') Map.empty) ''txt2img'' ''txt2img''
           [(''width'', Py_int 512), (''height'', Py_int 512)]) = Some (Raster 512 512 7)
   \<and> generated (map snd (trace (main (example_world (Some ''txt2img-btn'') Map.empty) Map.empty)))
        = [Raster 512 512 7]
   \<and> outcome (main (example_world (Some ''txt2img-btn'') Map.empty) Map.empty) = Inr ()
   \<and> get_image OUTPUT_IMAGE_KEY
        (session_of (main (example_world (Some ''txt2img-btn'') Map.empty) Map.empty))
        = Some (Raster 512 512 7)
   \<and> (Sidebar, Show_image (Raster 512 512 7))
        \<in> set (trace (main (example_world (Some ''txt2img-btn'') Map.empty) Map.empty))
   \<and> (Sidebar, Markdown ''No output generated yet'')
        \<notin> set (trace (main (example_world (Some ''txt2img-btn'') Map.empty) Map.empty))
   \<and> outcome (main (example_world None Map.empty) Map.empty) = Inr ()
   \<and> get_image OUTPUT_IMAGE_KEY (session_of (main (example_world None Map.empty) Map.empty))
        = None
   \<and> (Sidebar, Markdown ''No output generated yet'')
        \<in> set (trace (main (example_world None Map.empty) Map.empty))"
proof -
  let ?W = "example_world (Some ''txt2img-btn'') Map.empty"
  let ?V = "example_world None Map.empty"
  have run: "generated (map snd (trace (main ?W Map.empty))) = [Raster 512 512 7]"
    and ended: "outcome (main ?W Map.empty) = Inr ()"
    by (simp_all add: example_simps)
  have idle: "outcome (main ?V Map.empty) = Inr ()"
    and unset: "get_image OUTPUT_IMAGE_KEY (session_of (main ?V Map.empty)) = None"
    by (simp_all add: example_simps)
  have click: "button ?W ''Generate image'' (Some (''txt2img'' @ ''-btn''))"
    and made: "generate ?W (collected ?W ''txt2img'' ''txt2img''
           [(''width'', Py_int 512), (''height'', Py_int 512)]) = Some (Raster 512 512 7)"
    by (simp_all add: example_world_def collected_def)
  note clicked = output_stored_and_shown [of ?W "''txt2img''" "''txt2img''"
        "[(''width'', Py_int 512), (''height'', Py_int 512)]" "Raster 512 512 7" Map.empty
        ?W]
  note unclicked = output_stored_and_shown [of ?V "''txt2img''" "''txt2img''" "[]"
        "Raster 512 512 7" Map.empty ?V]
  from clicked run have stored:
    "get_image OUTPUT_IMAGE_KEY (session_of (main ?W Map.empty)) = Some (Raster 512 512 7)"
    by simp
  from clicked ended stored have shown:
    "(Sidebar, Show_image (Raster 512 512 7)) \<in> set (trace (main ?W Map.empty))"
    and no_text:
    "(Sidebar, Markdown ''No output generated yet'') \<notin> set (trace (main ?W Map.empty))"
    by simp_all
  note side = conjunct1 [OF conjunct2 [OF conjunct2 [OF unclicked]]]
  have reached: "outcome (main ?V Map.empty) = Inr ()
      \<or> outcome (main ?V Map.empty) = Inl RerunException"
    using idle by (rule disjI1)
  note told = iffD2 [OF conjunct1 [OF mp [OF side reached]] unset]
  show ?thesis
    by (intro conjI run ended idle unset click made stored shown no_text told)
qed

text \<open>
  C5. The application offers exactly the four generation modes as four tabs: \<open>main\<close>
  calls \<open>st.tabs\<close> once, with the four labels for text-to-image, inpainting,
  image-to-image and upscaling; every call of \<open>generate\<close> in a run of \<open>main\<close> is made
  inside one of these tabs with the pipeline name that belongs to it; and each tab
  function passes its own pipeline name, \<open>txt2img\<close>, \<open>inpaint\<close>, \<open>img2img\<close> or
  \<open>upscale\<close>, to every call it makes.
\<close>

theorem four_modes_four_pipelines:
  "filter is_tabs (map snd (trace (main w ss))) =
     [Tabs [''Text to Image (txt2img)'', ''Inpainting'', ''Image to image (img2img)'',
            ''Upscale'']]
   \<and> (Page, Tabs [''Text to Image (txt2img)'', ''Inpainting'', ''Image to image (img2img)'',
                  ''Upscale'']) \<in> set (trace (main w ss))
   \<and> list_all tab_pipeline (trace (main w ss))
   \<and> (\<forall>c \<in> set (generate_calls (trace (txt2img_tab w ss))). pipeline_name_arg c = ''txt2img'')
   \<and> (\<forall>c \<in> set (generate_calls (trace (inpainting_tab w ss))). pipeline_name_arg c = ''inpaint'')
   \<and> (\<forall>c \<in> set (generate_calls (trace (img2img_tab w ss))). pipeline_name_arg c = ''img2img'')
   \<and> (\<forall>c \<in> set (generate_calls (trace (upscale_tab w ss))). pipeline_name_arg c = ''upscale'')"
proof -
  have "(Page, Tabs tab_labels) \<in> set (trace (main w ss))"
    by (simp add: main_def trace_bind_emit)
  then show ?thesis
    using tabs_main [of w ss] pipeline_main [of w ss] pipeline_txt2img [of _ w ss]
      pipeline_inpainting_tab [of _ w ss] pipeline_img2img [of _ w ss]
      pipeline_upscale [of _ w ss]
    by (simp add: tab_labels_def)
qed

theorem four_modes_four_pipelines_witness:
  "generate_calls (trace (img2img_tab
      (example_world (Some ''img2img-btn'') [''img2img-uploader'' \<mapsto> [1, 2, 3]]) Map.empty))
     = [collected (example_world (Some ''img2img-btn'') [''img2img-uploader'' \<mapsto> [1, 2, 3]])
          ''img2img'' ''img2img''
          [(''image_input'', Py_image (Resized (Raster 640 480 3) 512 512))]]
   \<and> pipeline_name_arg
        (collected (example_world (Some ''img2img-btn'') [''img2img-uploader'' \<mapsto> [1, 2, 3]])
          ''img2img'' ''img2img''
          [(''image_input'', Py_image (Resized (Raster 640 480 3) 512 512))]) = ''img2img''"
proof -
  let ?W = "example_world (Some ''img2img-btn'') [''img2img-uploader'' \<mapsto> [1, 2, 3]]"
  let ?c = "collected ?W ''img2img'' ''img2img''
          [(''image_input'', Py_image (Resized (Raster 640 480 3) 512 512))]"
  have calls: "generate_calls (trace (img2img_tab ?W Map.empty)) = [?c]"
    by (simp add: example_simps)
  then have "?c \<in> set (generate_calls (trace (img2img_tab ?W Map.empty)))"
    by simp
  with four_modes_four_pipelines [of ?W Map.empty]
  have "pipeline_name_arg ?c = ''img2img''"
    by blast
  with calls show ?thesis
    by (intro conjI)
qed

section \<open>Uploaded images\<close>

text \<open>
  C6, as the code has it. The script resizes input images and never crops one:
  \<open>image_uploader\<close> calls \<open>Image.resize\<close> with the given (width, height) on every
  uploaded file that PIL can open, and neither \<open>image_uploader\<close> nor any run of \<open>main\<close>
  performs a crop. The claim as stated, that every uploaded image is also cropped, fails:
  in the run below an image is uploaded, and the PIL operations of the whole run are its
  opening and its resizing.
\<close>

theorem upload_resized_never_cropped:
  "(file_uploader w ''Image'' [''jpg'', ''png''] (prefix @ ''-uploader'') = Some upl \<and>
    image_open w upl = Some img \<longrightarrow>
      Pil (Resize img (width, height)) \<in> set (trace (image_uploader w prefix width height ss)))
   \<and> filter is_crop (trace (image_uploader w prefix width height ss)) = []
   \<and> filter is_crop (map snd (trace (main w ss))) = []"
  using uploader_resize_logged [of w prefix upl img width height ss] no_crop_main [of w ss]
  by simp

theorem upload_resized_never_cropped_witness:
  "file_uploader (example_world None [''img2img-uploader'' \<mapsto> [1, 2, 3]])
      ''Image'' [''jpg'', ''png''] (''img2img'' @ ''-uploader'') = Some [1, 2, 3]
   \<and> image_open (example_world None [''img2img-uploader'' \<mapsto> [1, 2, 3]]) [1, 2, 3]
        = Some (Raster 640 480 3)
   \<and> Pil (Resize (Raster 640 480 3) (512, 512))
        \<in> set (trace (image_uploader (example_world None [''img2img-uploader'' \<mapsto> [1, 2, 3]])
                  ''img2img'' 512 512 Map.empty))"
proof -
  let ?W = "example_world None [''img2img-uploader'' \<mapsto> [1, 2, 3]]"
  have up: "file_uploader ?W ''Image'' [''jpg'', ''png''] (''img2img'' @ ''-uploader'')
      = Some [1, 2, 3]"
    and opened: "image_open ?W [1, 2, 3] = Some (Raster 640 480 3)"
    by (simp_all add: example_world_def)
  note resized = mp [OF conjunct1 [OF upload_resized_never_cropped
        [of ?W "''img2img''" "[1, 2, 3]" "Raster 640 480 3" 512 512 Map.empty]]
      conjI [OF up opened]]
  show ?thesis
    by (intro conjI up opened resized)
qed

text \<open>
  A run with an uploaded image in which nothing is cropped: the PIL operations of the
  whole run are \<open>Image.open\<close> and \<open>Image.resize\<close> on the upload.
\<close>

theorem crop_counterexample:
  "file_uploader (example_world None [''img2img-uploader'' \<mapsto> [1, 2, 3]])
      ''Image'' [''jpg'', ''png''] ''img2img-uploader'' = Some [1, 2, 3]
   \<and> image_open (example_world None [''img2img-uploader'' \<mapsto> [1, 2, 3]]) [1, 2, 3]
        = Some (Raster 640 480 3)
   \<and> filter is_crop (map snd (trace
        (main (example_world None [''img2img-uploader'' \<mapsto> [1, 2, 3]]) Map.empty))) = []
   \<and> filter is_pil (map snd (trace
        (main (example_world None [''img2img-uploader'' \<mapsto> [1, 2, 3]]) Map.empty)))
      = [Pil (Open [1, 2, 3]), Pil (Resize (Raster 640 480 3) (512, 512))]"
  by (simp add: example_simps)

section \<open>Slider ranges\<close>

text \<open>
  C8. Given what Streamlit promises of its sliders, every call of \<open>generate\<close> in a run
  of \<open>main\<close> has steps from 1 to 200 and a guidance scale from 0.0 to 20.0, and every
  \<open>width\<close> and \<open>height\<close> it is passed is a multiple of 64 from 64 to 1024; the calls of
  the txt2img tab carry exactly these two keyword arguments, both in that range.
\<close>

theorem slider_values_in_range:
  assumes "slider_contract w"
  shows "list_all call_in_range (generate_calls (map snd (trace (main w ss))))
   \<and> list_all
       (\<lambda>c. case kwargs_arg c of
              [(k1, Py_int wd), (k2, Py_int ht)] \<Rightarrow>
                k1 = ''width'' \<and> 64 dvd wd \<and> 64 \<le> wd \<and> wd \<le> 1024 \<and>
                k2 = ''height'' \<and> 64 dvd ht \<and> 64 \<le> ht \<and> ht \<le> 1024
            | _ \<Rightarrow> False)
       (generate_calls (trace (txt2img_tab w ss)))"
  using in_range_main [OF assms, of ss] slider_size_ok [OF assms, of "''Width''" "''txt2img-width''"]
    slider_size_ok [OF assms, of "''Height''" "''txt2img-height''"]
  by (simp add: txt2img_calls collected_def size_ok_def)

theorem slider_values_in_range_witness:
  "slider_contract (example_world (Some ''txt2img-btn'') Map.empty)
   \<and> generate_calls (map snd (trace
        (main (example_world (Some ''txt2img-btn'') Map.empty) Map.empty)))
      = [\<lparr>prompt_arg = ''border collie puppy'', pipeline_name_arg = ''txt2img'',
          negative_prompt_arg = [], steps_arg = 50, guidance_scale_arg = 7.5,
          kwargs_arg = [(''width'', Py_int 512), (''height'', Py_int 512)]\<rparr>]
   \<and> call_in_range
        \<lparr>prompt_arg = ''border collie puppy'', pipeline_name_arg = ''txt2img'',
          negative_prompt_arg = [], steps_arg = 50, guidance_scale_arg = 7.5,
          kwargs_arg = [(''width'', Py_int 512), (''height'', Py_int 512)]\<rparr>"
proof -
  let ?W = "example_world (Some ''txt2img-btn'') Map.empty"
  have contract: "slider_contract ?W"
    by (simp add: slider_contract_def example_world_def)
  have calls: "generate_calls (map snd (trace (main ?W Map.empty)))
      = [\<lparr>prompt_arg = ''border collie puppy'', pipeline_name_arg = ''txt2img'',
          negative_prompt_arg = [], steps_arg = 50, guidance_scale_arg = 7.5,
          kwargs_arg = [(''width'', Py_int 512), (''height'', Py_int 512)]\<rparr>]"
    by (simp add: example_simps)
  from slider_values_in_range [OF contract, of Map.empty] calls
  have "call_in_range
        \<lparr>prompt_arg = ''border collie puppy'', pipeline_name_arg = ''txt2img'',
          negative_prompt_arg = [], steps_arg = 50, guidance_scale_arg = 7.5,
          kwargs_arg = [(''width'', Py_int 512), (''height'', Py_int 512)]\<rparr>"
    by simp
  with contract calls show ?thesis
    by (intro conjI)
qed

section \<open>The uploader\<close>

text \<open>
  C9. \<open>image_uploader\<close> resizes only freshly uploaded files. When a file is uploaded
  (one PIL can open, and the requested sides are at least one, as they are at every call
  in main.py) it returns that image resized to exactly the given (width, height). When
  no file is uploaded it returns what the session stores as loaded image (\<open>None\<close> if
  nothing is stored), unchanged, performs no PIL operation, and the width and height it
  was given make no difference. It never changes the session.
\<close>

theorem uploader_resizes_uploads_only:
  "(file_uploader w ''Image'' [''jpg'', ''png''] (prefix @ ''-uploader'') = Some upl \<and>
    image_open w upl = Some img \<and> 1 \<le> width \<and> 1 \<le> height \<longrightarrow>
      outcome (image_uploader w prefix width height ss) = Inr (Some (Resized img width height)) \<and>
      image_width (Resized img width height) = width \<and>
      image_height (Resized img width height) = height)
   \<and> (file_uploader w ''Image'' [''jpg'', ''png''] (prefix @ ''-uploader'') = None \<longrightarrow>
        outcome (image_uploader w prefix width height ss) = Inr (get_image LOADED_IMAGE_KEY ss) \<and>
        trace (image_uploader w prefix width height ss)
          = [Widget ''Image'' (Some (prefix @ ''-uploader''))] \<and>
        image_uploader w prefix width height ss = image_uploader w prefix width' height' ss)
   \<and> session_of (image_uploader w prefix width height ss) = ss"
  using uploader_resized [of w prefix upl img width height ss]
    uploader_stored [of w prefix width height ss] uploader_stored [of w prefix width' height' ss]
  by simp

theorem uploader_resizes_uploads_only_witness:
  "file_uploader (example_world None [''upscale-uploader'' \<mapsto> [1, 2, 3]])
      ''Image'' [''jpg'', ''png''] (''upscale'' @ ''-uploader'') = Some [1, 2, 3]
   \<and> image_open (example_world None [''upscale-uploader'' \<mapsto> [1, 2, 3]]) [1, 2, 3]
        = Some (Raster 640 480 3)
   \<and> outcome (image_uploader (example_world None [''upscale-uploader'' \<mapsto> [1, 2, 3]])
        ''upscale'' 256 256 Map.empty) = Inr (Some (Resized (Raster 640 480 3) 256 256))
   \<and> file_uploader (example_world None Map.empty)
        ''Image'' [''jpg'', ''png''] (''upscale'' @ ''-uploader'') = None
   \<and> outcome (image_uploader (example_world None Map.empty) ''upscale'' 256 256
        [''loaded_image'' \<mapsto> Raster 512 512 7]) = Inr (Some (Raster 512 512 7))"
proof -
  let ?W = "example_world None [''upscale-uploader'' \<mapsto> [1, 2, 3]]"
  let ?V = "example_world None Map.empty"
  have up: "file_uploader ?W ''Image'' [''jpg'', ''png''] (''upscale'' @ ''-uploader'')
      = Some [1, 2, 3]"
    and opened: "image_open ?W [1, 2, 3] = Some (Raster 640 480 3)"
    and none: "file_uploader ?V ''Image'' [''jpg'', ''png''] (''upscale'' @ ''-uploader'') = None"
    by (simp_all add: example_world_def)
  have stored: "get_image LOADED_IMAGE_KEY [''loaded_image'' \<mapsto> Raster 512 512 7]
      = Some (Raster 512 512 7)"
    by (simp add: get_image_def LOADED_IMAGE_KEY_def)
  from uploader_resizes_uploads_only
    [of ?W "''upscale''" "[1, 2, 3]" "Raster 640 480 3" 256 256 Map.empty 256 256] up opened
  have first: "outcome (image_uploader ?W ''upscale'' 256 256 Map.empty)
      = Inr (Some (Resized (Raster 640 480 3) 256 256))"
    by simp
  from uploader_resizes_uploads_only
    [of ?V "''upscale''" "[]" "Raster 0 0 0" 256 256 "[''loaded_image'' \<mapsto> Raster 512 512 7]"
        256 256] none stored
  have second: "outcome (image_uploader ?V ''upscale'' 256 256
        [''loaded_image'' \<mapsto> Raster 512 512 7]) = Inr (Some (Raster 512 512 7))"
    by simp
  show ?thesis
    by (intro conjI up opened first none second)
qed

section \<open>Which tabs need an input image\<close>

text \<open>
  C10. The inpainting and img2img tabs never enter the generation flow without an input
  image. \<open>inpainting\<close> returns an image and a mask only when \<open>image_uploader\<close> gave the
  image and the canvas returned a drawing with at least one pixel of positive alpha, of
  which the mask is made; whenever it returns, it returns either both or
  \<open>(None, None)\<close>. The \<open>Generate image\<close> button of the inpainting tab is on the page, or
  a call of \<open>generate\<close> is made there, only when \<open>inpainting\<close> returned both; the same
  holds for the img2img tab and the image of its uploader. The upscale tab enters the
  flow whenever its uploader returns, with or without an image: with no upload, no
  loaded image in the session and its button clicked, it calls \<open>generate\<close> with
  \<open>image_input\<close> equal to \<open>None\<close>.
\<close>

theorem image_required_except_upscale:
  "(outcome (inpainting w ss) = Inr (Some i, Some m) \<longrightarrow>
      outcome (image_uploader w ''inpainting'' DEFAULT_WIDTH DEFAULT_HEIGHT ss) = Inr (Some i) \<and>
      (\<exists>args cr data. background_image args = i \<and> canvas_key args = ''inpainting'' \<and>
          st_canvas w args = Some cr \<and> image_data cr = Some data \<and>
          (\<exists>row \<in> set data. \<exists>p \<in> set row. 0 < alpha p) \<and>
          m = pil_fromarray (map (map (\<lambda>p. 0 < alpha p)) data)))
   \<and> (outcome (inpainting w ss) = Inr r \<longrightarrow>
        r = (None, None) \<or> (\<exists>i' m'. r = (Some i', Some m')))
   \<and> (Widget ''Generate image'' k \<in> set (trace (inpainting_tab w ss)) \<or>
       generate_calls (trace (inpainting_tab w ss)) \<noteq> [] \<longrightarrow>
        (\<exists>i' m'. outcome (inpainting w ss) = Inr (Some i', Some m')))
   \<and> (Widget ''Generate image'' k \<in> set (trace (img2img_tab w ss)) \<or>
       generate_calls (trace (img2img_tab w ss)) \<noteq> [] \<longrightarrow>
        (\<exists>i'. outcome (image_uploader w ''img2img'' DEFAULT_WIDTH DEFAULT_HEIGHT ss)
                = Inr (Some i')))
   \<and> (outcome (image_uploader w ''upscale'' 256 256 ss) = Inr u \<longrightarrow>
        Widget ''Generate image'' (Some ''upscale-btn'') \<in> set (trace (upscale_tab w ss)))
   \<and> (file_uploader w ''Image'' [''jpg'', ''png''] ''upscale-uploader'' = None \<and>
       get_image LOADED_IMAGE_KEY ss = None \<and>
       button w ''Generate image'' (Some ''upscale-btn'') \<longrightarrow>
        generate_calls (trace (upscale_tab w ss)) =
          [collected w ''upscale'' ''upscale'' [(''image_input'', Py_none)]])"
proof -
  have inpaint_calls: "generate_calls (trace (inpainting_tab w ss)) \<noteq> [] \<longrightarrow>
      (\<exists>i' m'. outcome (inpainting w ss) = Inr (Some i', Some m'))"
    by (auto simp: inpainting_tab_calls split: sum.splits option.splits prod.splits)
  have img2img_made: "generate_calls (trace (img2img_tab w ss)) \<noteq> [] \<longrightarrow>
      (\<exists>i'. outcome (image_uploader w ''img2img'' DEFAULT_WIDTH DEFAULT_HEIGHT ss)
                = Inr (Some i'))"
    by (auto simp: img2img_calls split: sum.splits option.splits)
  show ?thesis
    using inpainting_both [of w ss i m] inpainting_all_or_nothing [of w ss r]
      inpainting_tab_flow [of k w ss] img2img_flow [of k w ss] upscale_flow [of w ss u]
      upscale_without_image [of w ss] inpaint_calls img2img_made
    by blast
qed

theorem image_required_except_upscale_witness:
  "file_uploader (example_world (Some ''upscale-btn'') Map.empty)
      ''Image'' [''jpg'', ''png''] ''upscale-uploader'' = None
   \<and> get_image LOADED_IMAGE_KEY Map.empty = None
   \<and> button (example_world (Some ''upscale-btn'') Map.empty) ''Generate image''
        (Some ''upscale-btn'')
   \<and> generate_calls (trace (upscale_tab (example_world (Some ''upscale-btn'') Map.empty)
        Map.empty)) =
      [collected (example_world (Some ''upscale-btn'') Map.empty) ''upscale'' ''upscale''
         [(''image_input'', Py_none)]]
   \<and> outcome (inpainting (example_world None Map.empty) Map.empty) = Inr (None, None)
   \<and> generate_calls (trace (inpainting_tab (example_world (Some ''inpaint-btn'') Map.empty)
        Map.empty)) = []"
proof -
  let ?W = "example_world (Some ''upscale-btn'') Map.empty"
  have none: "file_uploader ?W ''Image'' [''jpg'', ''png''] ''upscale-uploader'' = None"
    and unset: "get_image LOADED_IMAGE_KEY Map.empty = None"
    and click: "button ?W ''Generate image'' (Some ''upscale-btn'')"
    by (simp_all add: example_world_def get_image_def)
  note all = image_required_except_upscale
    [of ?W Map.empty "Raster 0 0 0" "Raster 0 0 0" "(None, None)" None None]
  note last = conjunct2 [OF conjunct2 [OF conjunct2 [OF conjunct2 [OF conjunct2 [OF all]]]]]
  note call = mp [OF last conjI [OF none conjI [OF unset click]]]
  have idle: "outcome (inpainting (example_world None Map.empty) Map.empty) = Inr (None, None)"
    and quiet: "generate_calls (trace (inpainting_tab
        (example_world (Some ''inpaint-btn'') Map.empty) Map.empty)) = []"
    by (simp_all add: example_simps)
  show ?thesis
    by (intro conjI none unset click call idle quiet)
qed

section \<open>Session storage\<close>

text \<open>
  C2. Session storage is a key/value store with round-trip semantics: for every string
  key \<open>k\<close> and image \<open>v\<close>, \<open>get_image k\<close> after \<open>set_image k v\<close> returns \<open>v\<close>.
\<close>

theorem set_get_image_roundtrip: "get_image k (set_image k v ss) = Some v"
  by (simp add: get_image_def set_image_def)

text \<open>
  C7. Storing an image under one key leaves every other key unchanged: for distinct keys
  \<open>k\<close> and \<open>k'\<close> the value stored under \<open>k'\<close>, or its absence, is the same before and
  after \<open>set_image k v\<close>, both in the store itself and as \<open>get_image\<close> reads it.
\<close>

theorem set_image_frame:
  "k \<noteq> k' \<Longrightarrow> set_image k v ss k' = ss k' \<and> get_image k' (set_image k v ss) = get_image k' ss"
  by (simp add: get_image_def set_image_def)

theorem set_image_frame_witness:
  "''output_img'' \<noteq> ''loaded_image''
   \<and> set_image ''output_img'' (Raster 8 8 0) Map.empty ''loaded_image'' = None
   \<and> get_image ''loaded_image''
        (set_image ''output_img'' (Raster 8 8 0) [''loaded_image'' \<mapsto> Raster 4 4 1])
      = Some (Raster 4 4 1)"
  using set_image_frame [of "''output_img''" "''loaded_image''" "Raster 8 8 0" Map.empty]
    set_image_frame [of "''output_img''" "''loaded_image''" "Raster 8 8 0"
      "[''loaded_image'' \<mapsto> Raster 4 4 1]"]
  by (simp add: get_image_def)

end
